theory Spec2Isabelle
  imports Main
begin

section \<open>The comparison status functions of the table comparator\<close>

text \<open>
  The script of the comparison page has three functions that turn the comparison result
  sent by the server into markup: \<open>getSamplingMethodText\<close>, \<open>getDetailedStatusMessage\<close>
  and \<open>getComparisonStatusClass\<close>. They are JavaScript, so the model writes out what the
  language does around them: a field of \<open>data\<close> that is \<open>null\<close> or \<open>undefined\<close> is
  \<open>None\<close>, a method call on such a field is the error \<open>TypeError\<close>, a property read on
  an object literal also finds the members of \<open>Object.prototype\<close>, and the two things
  the host decides (the locale of \<open>toLocaleString\<close>, the text of a native function) are
  fields of a \<open>host\<close> record.

  Numbers are the integer values a count can take. A Number is a double, so an integer
  beyond \<open>2^53\<close> is held rounded to 53 significant bits and printed with the fewest
  digits that still identify the double, in exponent notation from \<open>10^21\<close> on; the
  model writes this out. Strings are lists of bytes, the UTF-8 of the script.
\<close>

subsection \<open>Strings and numbers\<close>

text \<open>\<open>Array.prototype.join\<close> on an array of strings.\<close>

fun join :: "string \<Rightarrow> string list \<Rightarrow> string" where
  "join sep [] = []"
| "join sep [x] = x"
| "join sep (x # y # ys) = x @ sep @ join sep (y # ys)"

definition digit_char :: "nat \<Rightarrow> char" where
  "digit_char d = ''0123456789'' ! (d mod 10)"

fun digits :: "nat \<Rightarrow> string" where
  "digits n = (if n < 10 then [digit_char n] else digits (n div 10) @ [digit_char n])"

declare digits.simps [simp del]

text \<open>
  The double that holds a natural number: the number itself below \<open>2^53\<close>, and beyond
  that the nearest number with 53 significant bits, the even one of two that are equally
  near. From \<open>2^1024\<close> on the result stands for \<open>Infinity\<close>.
\<close>

fun bit_length :: "nat \<Rightarrow> nat" where
  "bit_length n = (if n = 0 then 0 else Suc (bit_length (n div 2)))"

declare bit_length.simps [simp del]

definition to_double :: "nat \<Rightarrow> nat" where
  "to_double x =
     (if x < 2 ^ 53 then x
      else let e = bit_length x - 53; q = x div 2 ^ e; r = x mod 2 ^ e; half = 2 ^ (e - 1)
           in (if half < r \<or> (r = half \<and> odd q) then q + 1 else q) * 2 ^ e)"

text \<open>
  The numbers that round to a double \<open>y\<close> beyond \<open>2^53\<close>: those from \<open>lo\<close> to \<open>hi\<close>,
  half a step of the 53-bit grid to either side of \<open>y\<close> (a quarter below a power of
  two, where the grid is finer), the two ends included when the last bit of \<open>y\<close> is 0.
\<close>

definition rounding_interval :: "nat \<Rightarrow> nat \<times> nat" where
  "rounding_interval y =
     (let e = bit_length y - 53; m = y div 2 ^ e;
          up = 2 ^ (e - 1);
          down = (if m = 2 ^ 52 then 2 ^ (e - 2) else 2 ^ (e - 1))
      in if even m then (y - down, y + up) else (y - down + 1, y + up - 1))"

text \<open>
  \<open>Number::toString\<close> prints, of the decimals that round to \<open>y\<close>, one with the fewest
  significant digits: a multiple of the highest power of ten that has a multiple from
  \<open>lo\<close> to \<open>hi\<close>. Such a multiple is next to \<open>y\<close>, below or above. Of two the nearer
  to \<open>y\<close> is printed, and the one with the even last digit if they are equally near.
\<close>

definition multiple_within :: "nat \<Rightarrow> nat \<Rightarrow> nat \<Rightarrow> nat \<Rightarrow> bool" where
  "multiple_within lo hi y p = (lo \<le> y - y mod 10 ^ p \<or> y - y mod 10 ^ p + 10 ^ p \<le> hi)"

definition trailing_zeros :: "nat \<Rightarrow> nat \<Rightarrow> nat \<Rightarrow> nat" where
  "trailing_zeros lo hi y =
     foldl (\<lambda>best p. if multiple_within lo hi y p then p else best) 0
       [0..<Suc (length (digits hi))]"

definition nearest_multiple :: "nat \<Rightarrow> nat \<Rightarrow> nat \<Rightarrow> nat \<Rightarrow> nat" where
  "nearest_multiple lo hi y p =
     (let a = y - y mod 10 ^ p; b = a + 10 ^ p
      in if lo \<le> a \<and> b \<le> hi
         then (if y - a < b - y then a
               else if b - y < y - a then b
               else if even (a div 10 ^ p) then a else b)
         else if lo \<le> a then a else b)"

text \<open>The decimal printed for a finite double holding a natural number; up to \<open>2^53\<close>
  it is the number itself.\<close>

definition shortest_decimal :: "nat \<Rightarrow> nat" where
  "shortest_decimal y =
     (if y \<le> 2 ^ 53 then y
      else case rounding_interval y of
             (lo, hi) \<Rightarrow> nearest_multiple lo hi y (trailing_zeros lo hi y))"

definition strip_zeros :: "string \<Rightarrow> string" where
  "strip_zeros ds = rev (dropWhile (\<lambda>c. c = CHR ''0'') (rev ds))"

text \<open>
  \<open>Number::toString\<close> on a natural number: the decimal in full when it has at most 21
  digits, otherwise its significant digits, a point after the first, and the exponent.
\<close>

definition magnitude_to_string :: "nat \<Rightarrow> string" where
  "magnitude_to_string x =
     (let y = to_double x
      in if 2 ^ 1024 \<le> y then ''Infinity''
         else let ds = digits (shortest_decimal y); n = length ds
              in if n \<le> 21 then ds
                 else let s = strip_zeros ds
                      in (if length s = 1 then s else take 1 s @ ''.'' @ drop 1 s)
                           @ ''e+'' @ digits (n - 1))"

text \<open>What a template literal prints for an integer-valued Number.\<close>

definition number_to_string :: "int \<Rightarrow> string" where
  "number_to_string n =
     (if n < 0 then ''-'' @ magnitude_to_string (nat (- n)) else magnitude_to_string (nat n))"

subsection \<open>The host\<close>

text \<open>
  \<open>n.toLocaleString()\<close> without arguments formats in the default locale of the
  browser, and the text of a built-in function is implementation-defined; both are taken
  from the host.
\<close>

record host =
  toLocaleString :: "int \<Rightarrow> string"
  builtin_string :: "string \<Rightarrow> string"

text \<open>
  Two concrete hosts for running the functions: the digits of the decimal of the double
  in groups of three, separated by a comma (as the locale en-US does) or by a full stop
  (as pt-BR does), and the infinity sign U+221E for \<open>Infinity\<close>.
\<close>

definition group3 :: "nat \<Rightarrow> string" where
  "group3 m = [digit_char (m div 100), digit_char (m div 10), digit_char m]"

fun grouped :: "string \<Rightarrow> nat \<Rightarrow> string" where
  "grouped sep n =
     (if n < 1000 then digits n else grouped sep (n div 1000) @ sep @ group3 (n mod 1000))"

declare grouped.simps [simp del]

definition infinity_sign :: string where
  "infinity_sign = [CHR 0xE2, CHR 0x88, CHR 0x9E]"

definition magnitude_format :: "string \<Rightarrow> nat \<Rightarrow> string" where
  "magnitude_format sep x =
     (let y = to_double x
      in if 2 ^ 1024 \<le> y then infinity_sign else grouped sep (shortest_decimal y))"

definition locale_format :: "string \<Rightarrow> int \<Rightarrow> string" where
  "locale_format sep n =
     (if n < 0 then ''-'' @ magnitude_format sep (nat (- n)) else magnitude_format sep (nat n))"

definition native_code :: "string \<Rightarrow> string" where
  "native_code k =
     (if k = ''__proto__'' then ''[object Object]''
      else ''function '' @ (if k = ''constructor'' then ''Object'' else k)
             @ ''() { [native code] }'')"

definition en_US :: host where
  "en_US = \<lparr>toLocaleString = locale_format '','', builtin_string = native_code\<rparr>"

definition pt_BR :: host where
  "pt_BR = \<lparr>toLocaleString = locale_format ''.'', builtin_string = native_code\<rparr>"

subsection \<open>The data received\<close>

datatype js_error = TypeError

text \<open>The values a JSON scalar can take, with \<open>undefined\<close> for a field that is not there.\<close>

datatype js_scalar = JUndefined | JNull | JBool bool | JNum int | JStr string

text \<open>
  \<open>data.summary\<close>. The three counts are only compared with \<open>> 0\<close> and printed when
  positive; a count that is absent compares like \<open>0\<close>.
\<close>

record summary =
  total_differing :: int
  total_missing_dev :: int
  total_missing_prod :: int

text \<open>
  \<open>data\<close>. The two flags are only tested for truthiness, so an absent flag is
  \<open>False\<close>. The fields on which a method is called or a property is read are optional:
  \<open>None\<close> stands for \<open>null\<close> and \<open>undefined\<close>. The schema differences are records that
  the functions never look into.
\<close>

record 'd comparison_result =
  tables_identical :: bool
  dev_row_count :: "int option"
  prod_row_count :: "int option"
  schema_differences :: "'d list option"
  summary :: "summary option"
  was_limited :: bool
  sampling_method :: js_scalar
  max_rows_setting :: "int option"

subsection \<open>getSamplingMethodText\<close>

text \<open>The key that \<open>methods[method]\<close> looks up: \<open>ToPropertyKey\<close> of a scalar.\<close>

fun to_property_key :: "js_scalar \<Rightarrow> string" where
  "to_property_key JUndefined = ''undefined''"
| "to_property_key JNull = ''null''"
| "to_property_key (JBool b) = (if b then ''true'' else ''false'')"
| "to_property_key (JNum n) = number_to_string n"
| "to_property_key (JStr s) = s"

text \<open>The own properties of the object literal \<open>methods\<close>.\<close>

definition methods :: "(string \<times> string) list" where
  "methods =
     [(''LAST_N'', ''most recent''),
      (''RANDOM'', ''random sample of''),
      (''TOP_N'', ''first'')]"

text \<open>
  An object literal has the prototype \<open>Object.prototype\<close>; a property read that finds no
  own property goes on there. These are its members in a browser; each is a function,
  except \<open>__proto__\<close>, an accessor that gives \<open>Object.prototype\<close> itself.
\<close>

definition object_prototype_keys :: "string list" where
  "object_prototype_keys =
     [''constructor'', ''hasOwnProperty'', ''isPrototypeOf'', ''propertyIsEnumerable'',
      ''toLocaleString'', ''toString'', ''valueOf'', ''__proto__'',
      ''__defineGetter__'', ''__defineSetter__'', ''__lookupGetter__'', ''__lookupSetter__'']"

text \<open>
  What a property read on \<open>methods\<close> gives: one of its strings, or the member of
  \<open>Object.prototype\<close> of that name; \<open>None\<close> is \<open>undefined\<close>.
\<close>

datatype js_member = Text string | Builtin string

definition methods_get :: "string \<Rightarrow> js_member option" where
  "methods_get k =
     (case map_of methods k of
        Some s \<Rightarrow> Some (Text s)
      | None \<Rightarrow> if k \<in> set object_prototype_keys then Some (Builtin k) else None)"

text \<open>Truthiness: a string is falsy when empty, a function or an object never.\<close>

fun truthy :: "js_member \<Rightarrow> bool" where
  "truthy (Text s) = (s \<noteq> [])"
| "truthy (Builtin k) = True"

definition getSamplingMethodText :: "js_scalar \<Rightarrow> js_member" where
  "getSamplingMethodText method =
     (case methods_get (to_property_key method) of
        Some v \<Rightarrow> if truthy v then v else Text ''first''
      | None \<Rightarrow> Text ''first'')"

text \<open>What a template literal prints for the value of \<open>getSamplingMethodText\<close>.\<close>

fun member_to_string :: "host \<Rightarrow> js_member \<Rightarrow> string" where
  "member_to_string h (Text s) = s"
| "member_to_string h (Builtin k) = builtin_string h k"

subsection \<open>getDetailedStatusMessage\<close>

text \<open>A template literal that runs over several lines of the script, line by line.\<close>

definition newline :: string where
  "newline = [CHR 0x0A]"

definition template :: "string list \<Rightarrow> string" where
  "template ls = join newline ls"

text \<open>The emoji after \<open>Perfect Match!\<close>, U+1F389.\<close>

definition party_popper :: string where
  "party_popper = [CHR 0xF0, CHR 0x9F, CHR 0x8E, CHR 0x89]"

text \<open>\<open>x.toLocaleString()\<close> on a field that may be absent.\<close>

definition locale_string :: "host \<Rightarrow> int option \<Rightarrow> js_error + string" where
  "locale_string h x = (case x of None \<Rightarrow> Inl TypeError | Some n \<Rightarrow> Inr (toLocaleString h n))"

text \<open>The markup returned when \<open>data.tables_identical\<close> is truthy, \<open>rows\<close> being the
  formatted \<open>dev_row_count\<close>.\<close>

definition identical_markup :: "string \<Rightarrow> string" where
  \<open>identical_markup rows = template
     ['''',
      ''            <div class="d-flex align-items-center mb-3">'',
      ''                <i class="fas fa-check-circle text-success me-2 fs-4"></i>'',
      ''                <h6 class="mb-0 text-success">Perfect Match! '' @ party_popper @ ''</h6>'',
      ''            </div>'',
      ''            <div class="row g-3 text-sm">'',
      ''                <div class="col-md-3">'',
      ''                    <div class="d-flex align-items-center">'',
      ''                        <i class="fas fa-database me-2 text-success"></i>'',
      ''                        <span>Schema Match</span>'',
      ''                    </div>'',
      ''                </div>'',
      ''                <div class="col-md-3">'',
      ''                    <div class="d-flex align-items-center">'',
      ''                        <i class="fas fa-list-ol me-2 text-success"></i>'',
      ''                        <span>'' @ rows @ '' Rows</span>'',
      ''                    </div>'',
      ''                </div>'',
      ''                <div class="col-md-3">'',
      ''                    <div class="d-flex align-items-center">'',
      ''                        <i class="fas fa-equals me-2 text-success"></i>'',
      ''                        <span>Data Identical</span>'',
      ''                    </div>'',
      ''                </div>'',
      ''                <div class="col-md-3">'',
      ''                    <div class="d-flex align-items-center">'',
      ''                        <i class="fas fa-chart-line me-2 text-success"></i>'',
      ''                        <span>Complete Analysis</span>'',
      ''                    </div>'',
      ''                </div>'',
      ''            </div>'',
      ''        '']\<close>

text \<open>An element of the array \<open>issues\<close>.\<close>

record issue =
  issue_icon :: string
  issue_text :: string
  issue_type :: string

text \<open>The schema check. The guard \<open>data.schema_differences &&\<close> is falsy on an absent
  field, so \<open>.length\<close> is only read on an array.\<close>

definition schema_issue :: "'d comparison_result \<Rightarrow> issue" where
  "schema_issue data =
     (case schema_differences data of
        Some ds \<Rightarrow>
          if length ds > 0
          then \<lparr>issue_icon = ''fa-exclamation-triangle'',
                issue_text = ''Schema differences ('' @ number_to_string (int (length ds)) @ '')'',
                issue_type = ''danger''\<rparr>
          else \<lparr>issue_icon = ''fa-check'', issue_text = ''Schema identical'',
                issue_type = ''success''\<rparr>
      | None \<Rightarrow> \<lparr>issue_icon = ''fa-check'', issue_text = ''Schema identical'',
                issue_type = ''success''\<rparr>)"

text \<open>The row count check. With a count absent, whichever way \<open>!==\<close> goes the branch
  taken calls \<open>toLocaleString\<close> on it and throws.\<close>

definition row_count_issue :: "host \<Rightarrow> 'd comparison_result \<Rightarrow> js_error + issue" where
  "row_count_issue h data =
     (if dev_row_count data \<noteq> prod_row_count data
      then (case locale_string h (dev_row_count data) of
              Inl e \<Rightarrow> Inl e
            | Inr d \<Rightarrow>
                (case locale_string h (prod_row_count data) of
                   Inl e \<Rightarrow> Inl e
                 | Inr p \<Rightarrow>
                     Inr \<lparr>issue_icon = ''fa-exclamation-triangle'',
                          issue_text = ''Row count mismatch: DEV('' @ d @ '') vs PROD('' @ p @ '')'',
                          issue_type = ''danger''\<rparr>))
      else (case locale_string h (dev_row_count data) of
              Inl e \<Rightarrow> Inl e
            | Inr d \<Rightarrow>
                Inr \<lparr>issue_icon = ''fa-check'',
                     issue_text = ''Row counts match ('' @ d @ '')'',
                     issue_type = ''success''\<rparr>))"

text \<open>The data differences check; \<open>data.summary.total_differing\<close> throws when
  \<open>data.summary\<close> is absent.\<close>

definition dataIssues :: "summary \<Rightarrow> string list" where
  "dataIssues s =
     (if total_differing s > 0 then [number_to_string (total_differing s) @ '' differing''] else []) @
     (if total_missing_dev s > 0
      then [number_to_string (total_missing_dev s) @ '' missing from DEV''] else []) @
     (if total_missing_prod s > 0
      then [number_to_string (total_missing_prod s) @ '' missing from PROD''] else [])"

definition data_issue :: "'d comparison_result \<Rightarrow> js_error + issue" where
  "data_issue data =
     (case summary data of
        None \<Rightarrow> Inl TypeError
      | Some s \<Rightarrow>
          if total_differing s > 0 \<or> total_missing_dev s > 0 \<or> total_missing_prod s > 0
          then Inr \<lparr>issue_icon = ''fa-exclamation-triangle'',
                    issue_text = ''Data differences: '' @ join '', '' (dataIssues s),
                    issue_type = ''danger''\<rparr>
          else Inr \<lparr>issue_icon = ''fa-check'', issue_text = ''Compared data identical'',
                    issue_type = ''success''\<rparr>)"

text \<open>The coverage check.\<close>

definition coverage_issue :: "host \<Rightarrow> 'd comparison_result \<Rightarrow> js_error + issue" where
  "coverage_issue h data =
     (if was_limited data
      then (case locale_string h (max_rows_setting data) of
              Inl e \<Rightarrow> Inl e
            | Inr m \<Rightarrow>
                Inr \<lparr>issue_icon = ''fa-info-circle'',
                     issue_text = ''Limited analysis: ''
                       @ member_to_string h (getSamplingMethodText (sampling_method data))
                       @ '' '' @ m @ '' rows'',
                     issue_type = ''warning''\<rparr>)
      else Inr \<lparr>issue_icon = ''fa-check'', issue_text = ''Complete table analysis'',
                issue_type = ''success''\<rparr>)"

text \<open>The array \<open>issues\<close> after the four checks, each pushing one element; the first
  check that throws ends the call.\<close>

definition issues :: "host \<Rightarrow> 'd comparison_result \<Rightarrow> js_error + issue list" where
  "issues h data =
     (case row_count_issue h data of
        Inl e \<Rightarrow> Inl e
      | Inr row_count \<Rightarrow>
          (case data_issue data of
             Inl e \<Rightarrow> Inl e
           | Inr differences \<Rightarrow>
               (case coverage_issue h data of
                  Inl e \<Rightarrow> Inl e
                | Inr coverage \<Rightarrow> Inr [schema_issue data, row_count, differences, coverage])))"

definition issue_markup :: "issue \<Rightarrow> string" where
  \<open>issue_markup i = template
     [''<div class="d-flex align-items-center mb-2">'',
      ''                <i class="fas '' @ issue_icon i @ '' me-2 text-'' @ issue_type i @ ''"></i>'',
      ''                <span class="text-'' @ issue_type i @ ''">'' @ issue_text i @ ''</span>'',
      ''            </div>'']\<close>

definition issues_markup :: "string \<Rightarrow> string" where
  \<open>issues_markup issuesList = template
     ['''',
      ''            <div class="mb-3">'',
      ''                <h6 class="text-muted mb-3">'',
      ''                    <i class="fas fa-clipboard-check me-2"></i>'',
      ''                    Analysis Results'',
      ''                </h6>'',
      ''                '' @ issuesList,
      ''            </div>'',
      ''        '']\<close>

definition getDetailedStatusMessage :: "host \<Rightarrow> 'd comparison_result \<Rightarrow> js_error + string" where
  "getDetailedStatusMessage h data =
     (if tables_identical data
      then (case locale_string h (dev_row_count data) of
              Inl e \<Rightarrow> Inl e
            | Inr rows \<Rightarrow> Inr (identical_markup rows))
      else (case issues h data of
              Inl e \<Rightarrow> Inl e
            | Inr is \<Rightarrow> Inr (issues_markup (join [] (map issue_markup is)))))"

subsection \<open>getComparisonStatusClass\<close>

definition getComparisonStatusClass :: "'d comparison_result \<Rightarrow> string" where
  "getComparisonStatusClass data =
     (if tables_identical data then ''card-header bg-success text-white''
      else ''card-header bg-warning text-dark'')"


subsection \<open>The report on identical tables, as the specification describes it\<close>

text \<open>
  The specification describes the report on identical tables as a success-styled heading
  over a fixed set of four affirmations. These two definitions follow those words: an
  affirmation is a column holding a success-coloured icon and a label, and the report is
  the heading, the affirmations in a row, and the end of the row. They are compared below
  with \<open>identical_markup\<close>, which is the text of the script.
\<close>

definition affirmation :: "string \<Rightarrow> string \<Rightarrow> string list" where
  \<open>affirmation icon label =
     [''                <div class="col-md-3">'',
      ''                    <div class="d-flex align-items-center">'',
      ''                        <i class="fas '' @ icon @ '' me-2 text-success"></i>'',
      ''                        <span>'' @ label @ ''</span>'',
      ''                    </div>'',
      ''                </div>'']\<close>

definition success_report :: "(string \<times> string) list \<Rightarrow> string" where
  \<open>success_report affirmations = template
     (['''',
       ''            <div class="d-flex align-items-center mb-3">'',
       ''                <i class="fas fa-check-circle text-success me-2 fs-4"></i>'',
       ''                <h6 class="mb-0 text-success">Perfect Match! '' @ party_popper @ ''</h6>'',
       ''            </div>'',
       ''            <div class="row g-3 text-sm">'']
      @ concat (map (\<lambda>(icon, label). affirmation icon label) affirmations)
      @ [''            </div>'',
         ''        ''])\<close>

subsection \<open>Comparison results to run the functions on\<close>

text \<open>Every check fails and the comparison was sampled.\<close>

definition all_differ :: "string comparison_result" where
  "all_differ =
     \<lparr>tables_identical = False, dev_row_count = Some 1000, prod_row_count = Some 998,
      schema_differences = Some [''id: BIGINT vs INT'', ''name: only in DEV''],
      summary = Some \<lparr>total_differing = 5, total_missing_dev = 0, total_missing_prod = 2\<rparr>,
      was_limited = True, sampling_method = JStr ''RANDOM'', max_rows_setting = Some 5000\<rparr>"

text \<open>Identical tables of a thousand rows, compared in full.\<close>

definition perfect_match :: "string comparison_result" where
  "perfect_match =
     \<lparr>tables_identical = True, dev_row_count = Some 1000, prod_row_count = Some 1000,
      schema_differences = Some [],
      summary = Some \<lparr>total_differing = 0, total_missing_dev = 0, total_missing_prod = 0\<rparr>,
      was_limited = False, sampling_method = JUndefined, max_rows_setting = None\<rparr>"

text \<open>Only the schemas differ; the sampling fields are absent.\<close>

definition schema_drift :: "string comparison_result" where
  "schema_drift =
     \<lparr>tables_identical = False, dev_row_count = Some 42, prod_row_count = Some 42,
      schema_differences = Some [''id: BIGINT vs INT'', ''name: only in DEV''],
      summary = Some \<lparr>total_differing = 0, total_missing_dev = 0, total_missing_prod = 0\<rparr>,
      was_limited = False, sampling_method = JUndefined, max_rows_setting = None\<rparr>"

section \<open>Properties\<close>

subsection \<open>Printing numbers\<close>

text \<open>Up to \<open>2^53\<close> every integer is its own double and is printed digit by digit.\<close>

lemma length_digits:
  assumes "n < 10 ^ k" and "0 < k"
  shows "length (digits n) \<le> k"
  using assms
proof (induction k arbitrary: n)
  case 0
  then show ?case by simp
next
  case (Suc k)
  show ?case
  proof (cases "n < 10")
    case True
    then show ?thesis by (simp add: digits.simps [of n])
  next
    case False
    with Suc.prems have "n div 10 < 10 ^ k" and "0 < k"
      by (auto simp add: less_mult_imp_div_less intro: Suc_lessI gr0I)
    then have "length (digits (n div 10)) \<le> k" by (rule Suc.IH)
    with False show ?thesis by (simp add: digits.simps [of n])
  qed
qed

lemma magnitude_to_string_exact:
  assumes "x < 2 ^ 53"
  shows "magnitude_to_string x = digits x"
proof -
  have "(2::nat) ^ 53 < 10 ^ 21" by simp
  with assms have "x < 10 ^ 21" by (rule less_trans)
  then have "length (digits x) \<le> 21" by (rule length_digits) simp
  moreover from assms have "\<not> (2::nat) ^ 1024 \<le> x" by simp
  ultimately show ?thesis
    using assms by (simp add: magnitude_to_string_def to_double_def shortest_decimal_def)
qed

lemma number_to_string_exact:
  assumes "0 \<le> n" and "n < 2 ^ 53"
  shows "number_to_string n = digits (nat n)"
  using assms by (simp add: number_to_string_def magnitude_to_string_exact nat_less_iff)

lemma magnitude_format_exact:
  assumes "x < 2 ^ 53"
  shows "magnitude_format sep x = grouped sep x"
proof -
  from assms have "\<not> (2::nat) ^ 1024 \<le> x" by simp
  with assms show ?thesis
    by (simp add: magnitude_format_def to_double_def shortest_decimal_def)
qed

text \<open>
  Beyond \<open>2^53\<close> the double is printed, not the integer: \<open>2^53 + 1\<close> is held as
  \<open>2^53\<close>, \<open>2^64\<close> is printed with 17 significant digits, and \<open>10^21\<close> in exponent
  notation, also in the text of the data entry.
\<close>

lemma number_to_string_2_53_1:
  "number_to_string 9007199254740993 = ''9007199254740992''"
proof -
  have bits: "bit_length 9007199254740993 = 54"
    by (simp add: bit_length.simps)
  have "to_double 9007199254740993 = 9007199254740992"
    by (simp add: to_double_def bits)
  then show ?thesis
    by (simp add: number_to_string_def magnitude_to_string_def shortest_decimal_def
        digits.simps digit_char_def)
qed

lemma number_to_string_2_64:
  "number_to_string 18446744073709551616 = ''18446744073709552000''"
proof -
  have bits: "bit_length 18446744073709551616 = 65"
    by (simp add: bit_length.simps)
  have held: "to_double 18446744073709551616 = 18446744073709551616"
    by (simp add: to_double_def bits)
  have interval: "rounding_interval 18446744073709551616 =
      (18446744073709550592, 18446744073709553664)"
    by (simp add: rounding_interval_def bits)
  have len: "length (digits 18446744073709553664) = 20"
    by (simp add: digits.simps)
  have zeros: "trailing_zeros 18446744073709550592 18446744073709553664
      18446744073709551616 = 3"
    by (simp add: trailing_zeros_def len multiple_within_def upt_conv_Cons)
  have nearest: "nearest_multiple 18446744073709550592 18446744073709553664
      18446744073709551616 3 = 18446744073709552000"
    by (simp add: nearest_multiple_def)
  have "shortest_decimal 18446744073709551616 = 18446744073709552000"
    by (simp add: shortest_decimal_def interval zeros nearest)
  with held show ?thesis
    by (simp add: number_to_string_def magnitude_to_string_def digits.simps digit_char_def)
qed

lemma number_to_string_10_21:
  "number_to_string 1000000000000000000000 = ''1e+21''"
proof -
  have bits: "bit_length 1000000000000000000000 = 70"
    by (simp add: bit_length.simps)
  have held: "to_double 1000000000000000000000 = 1000000000000000000000"
    by (simp add: to_double_def bits)
  have interval: "rounding_interval 1000000000000000000000 =
      (999999999999999934464, 1000000000000000065536)"
    by (simp add: rounding_interval_def bits)
  have len: "length (digits 1000000000000000065536) = 22"
    by (simp add: digits.simps)
  have zeros: "trailing_zeros 999999999999999934464 1000000000000000065536
      1000000000000000000000 = 21"
    by (simp add: trailing_zeros_def len multiple_within_def upt_conv_Cons)
  have nearest: "nearest_multiple 999999999999999934464 1000000000000000065536
      1000000000000000000000 21 = 1000000000000000000000"
    by (simp add: nearest_multiple_def)
  have "shortest_decimal 1000000000000000000000 = 1000000000000000000000"
    by (simp add: shortest_decimal_def interval zeros nearest)
  with held show ?thesis
    by (simp add: number_to_string_def magnitude_to_string_def digits.simps digit_char_def
        strip_zeros_def)
qed

lemma dataIssues_10_21:
  "dataIssues \<lparr>total_differing = 1000000000000000000000, total_missing_dev = 0,
      total_missing_prod = 0\<rparr> = [''1e+21 differing'']"
  by (simp add: dataIssues_def number_to_string_10_21)

lemmas host_simps = en_US_def pt_BR_def locale_format_def magnitude_format_exact
  grouped.simps digits.simps group3_def digit_char_def number_to_string_exact native_code_def

subsection \<open>The two hosts\<close>

lemma en_US_examples:
  "toLocaleString en_US 998 = ''998''"
  "toLocaleString en_US 1000 = ''1,000''"
  "toLocaleString en_US 1234567 = ''1,234,567''"
  "toLocaleString pt_BR 1002003 = ''1.002.003''"
  by (simp_all add: host_simps)

subsection \<open>When the call returns\<close>

text \<open>
  With the tables not identical, the call runs the four checks. It returns when the two
  row counts and the summary are there, and the row limit too if the comparison was
  sampled; the array then holds the four entries in the order of the checks.
\<close>

lemma issues_present:
  assumes "dev_row_count r = Some d" and "prod_row_count r = Some p"
    and "summary r = Some s" and "was_limited r \<longrightarrow> max_rows_setting r = Some m"
  shows "\<exists>row differences coverage.
     row_count_issue h r = Inr row \<and> data_issue r = Inr differences \<and>
     coverage_issue h r = Inr coverage \<and>
     issues h r = Inr [schema_issue r, row, differences, coverage]"
  using assms
  by (simp add: issues_def row_count_issue_def data_issue_def coverage_issue_def
      locale_string_def)

text \<open>Without them it throws: a method is called, or a property read, on nothing.\<close>

lemma only_TypeError: "(e :: js_error) = TypeError"
  by (cases e)

lemma absent_dev_row_count_throws:
  assumes "dev_row_count r = None"
  shows "getDetailedStatusMessage h r = Inl TypeError"
  using assms
  by (simp add: getDetailedStatusMessage_def issues_def row_count_issue_def locale_string_def)

lemma absent_summary_throws:
  assumes "\<not> tables_identical r" and "summary r = None"
  shows "getDetailedStatusMessage h r = Inl TypeError"
  using assms
  by (auto simp add: getDetailedStatusMessage_def issues_def data_issue_def
      split: sum.splits intro: only_TypeError)

lemma absent_max_rows_setting_throws:
  assumes "\<not> tables_identical r" and "was_limited r" and "max_rows_setting r = None"
  shows "getDetailedStatusMessage h r = Inl TypeError"
  using assms
  by (auto simp add: getDetailedStatusMessage_def issues_def coverage_issue_def
      locale_string_def split: sum.splits intro: only_TypeError)

subsection \<open>Tables that are not identical\<close>

text \<open>
  Claim C1. For a comparison result whose \<open>tables_identical\<close> is false (and whose counts
  and summary are present, as the data model has them), the status consists of exactly
  four issue entries, in the fixed order schema, row count, data, coverage: the array
  \<open>issues\<close> is these four, the message is the frame around their four pieces of markup
  in that order, and the class of the header is the warning one, whatever the types of
  the four entries are.
\<close>

theorem not_identical_four_issues:
  assumes "\<not> tables_identical r"
    and "dev_row_count r = Some d" and "prod_row_count r = Some p"
    and "summary r = Some s" and "was_limited r \<longrightarrow> max_rows_setting r = Some m"
  shows "\<exists>row differences coverage.
     row_count_issue h r = Inr row \<and> data_issue r = Inr differences \<and>
     coverage_issue h r = Inr coverage \<and>
     issues h r = Inr [schema_issue r, row, differences, coverage] \<and>
     getDetailedStatusMessage h r =
       Inr (issues_markup (issue_markup (schema_issue r) @ issue_markup row
              @ issue_markup differences @ issue_markup coverage)) \<and>
     getComparisonStatusClass r = ''card-header bg-warning text-dark''"
proof -
  from issues_present [OF assms(2-5), of h]
  obtain row differences coverage where
    parts: "row_count_issue h r = Inr row" "data_issue r = Inr differences"
      "coverage_issue h r = Inr coverage"
    and all: "issues h r = Inr [schema_issue r, row, differences, coverage]"
    by blast
  from all assms(1) have "getDetailedStatusMessage h r =
       Inr (issues_markup (issue_markup (schema_issue r) @ issue_markup row
              @ issue_markup differences @ issue_markup coverage))"
    by (simp add: getDetailedStatusMessage_def)
  moreover from assms(1) have "getComparisonStatusClass r = ''card-header bg-warning text-dark''"
    by (simp add: getComparisonStatusClass_def)
  ultimately show ?thesis using parts all by blast
qed

theorem not_identical_four_issues_witness:
  "\<not> tables_identical all_differ \<and>
   issues en_US all_differ =
     Inr [\<lparr>issue_icon = ''fa-exclamation-triangle'', issue_text = ''Schema differences (2)'',
            issue_type = ''danger''\<rparr>,
          \<lparr>issue_icon = ''fa-exclamation-triangle'',
            issue_text = ''Row count mismatch: DEV(1,000) vs PROD(998)'',
            issue_type = ''danger''\<rparr>,
          \<lparr>issue_icon = ''fa-exclamation-triangle'',
            issue_text = ''Data differences: 5 differing, 2 missing from PROD'',
            issue_type = ''danger''\<rparr>,
          \<lparr>issue_icon = ''fa-info-circle'',
            issue_text = ''Limited analysis: random sample of 5,000 rows'',
            issue_type = ''warning''\<rparr>] \<and>
   (\<exists>message. getDetailedStatusMessage en_US all_differ = Inr message) \<and>
   getComparisonStatusClass all_differ = ''card-header bg-warning text-dark''"
  using not_identical_four_issues [of all_differ 1000 998
      "\<lparr>total_differing = 5, total_missing_dev = 0, total_missing_prod = 2\<rparr>" 5000 en_US]
  by (simp add: all_differ_def schema_issue_def row_count_issue_def data_issue_def
      coverage_issue_def locale_string_def dataIssues_def getSamplingMethodText_def
      methods_get_def methods_def host_simps)

subsection \<open>Identical tables\<close>

text \<open>
  Claim C2. For a comparison result whose \<open>tables_identical\<close> is true (and whose
  \<open>dev_row_count\<close> is present), the message is a single success-styled report with the
  four affirmations schema match, row count, data identical and complete analysis, the
  row count being \<open>dev_row_count\<close> as the host formats it, and the class of the header is
  the success one.
\<close>

theorem identical_success_report:
  assumes "tables_identical r" and "dev_row_count r = Some n"
  shows "getDetailedStatusMessage h r =
     Inr (success_report
            [(''fa-database'', ''Schema Match''),
             (''fa-list-ol'', toLocaleString h n @ '' Rows''),
             (''fa-equals'', ''Data Identical''),
             (''fa-chart-line'', ''Complete Analysis'')]) \<and>
     getComparisonStatusClass r = ''card-header bg-success text-white''"
  using assms
  by (simp add: getDetailedStatusMessage_def getComparisonStatusClass_def
      locale_string_def identical_markup_def success_report_def affirmation_def template_def)

theorem identical_success_report_witness:
  "tables_identical perfect_match \<and> dev_row_count perfect_match = Some 1000 \<and>
   getDetailedStatusMessage en_US perfect_match =
     Inr (success_report
            [(''fa-database'', ''Schema Match''),
             (''fa-list-ol'', ''1,000 Rows''),
             (''fa-equals'', ''Data Identical''),
             (''fa-chart-line'', ''Complete Analysis'')]) \<and>
   getComparisonStatusClass perfect_match = ''card-header bg-success text-white''"
  using identical_success_report [of perfect_match 1000 en_US]
  by (simp add: perfect_match_def host_simps)

subsection \<open>The four entries\<close>

text \<open>
  Claim C3. With the tables not identical and the three counts of the summary not
  negative, the third entry is the data entry. When a count is not zero it is of type
  danger and its text is \<open>Data differences:\<close> followed by the list, joined by comma and
  space, of exactly the categories whose count is not zero, each printed as the count (the
  way a template literal prints a Number) and its label (differing, missing from DEV,
  missing from PROD), in that order; when the three
  counts are zero it is of type success with the text \<open>Compared data identical\<close>.
  For the counts 5, 0 and 2 the list reads \<open>5 differing, 2 missing from PROD\<close>,
  as the instance after the theorem shows.
\<close>

theorem data_differences_entry:
  assumes "\<not> tables_identical r"
    and "dev_row_count r = Some d" and "prod_row_count r = Some p"
    and "summary r = Some s" and "was_limited r \<longrightarrow> max_rows_setting r = Some m"
    and "0 \<le> total_differing s" and "0 \<le> total_missing_dev s"
    and "0 \<le> total_missing_prod s"
  shows "\<exists>es. issues h r = Inr es \<and> length es = 4 \<and>
     es ! 2 =
       (if total_differing s = 0 \<and> total_missing_dev s = 0 \<and> total_missing_prod s = 0
        then \<lparr>issue_icon = ''fa-check'', issue_text = ''Compared data identical'',
              issue_type = ''success''\<rparr>
        else \<lparr>issue_icon = ''fa-exclamation-triangle'',
              issue_text = ''Data differences: '' @
                join '', ''
                  (map (\<lambda>(n, label). number_to_string n @ '' '' @ label)
                     (filter (\<lambda>(n, label). n \<noteq> 0)
                        [(total_differing s, ''differing''),
                         (total_missing_dev s, ''missing from DEV''),
                         (total_missing_prod s, ''missing from PROD'')])),
              issue_type = ''danger''\<rparr>)"
proof -
  from issues_present [OF assms(2-5), of h]
  obtain row differences coverage where
    d: "data_issue r = Inr differences"
    and all: "issues h r = Inr [schema_issue r, row, differences, coverage]"
    by blast
  from assms(6-8) have pos: "(0 < total_differing s) = (total_differing s \<noteq> 0)"
    "(0 < total_missing_dev s) = (total_missing_dev s \<noteq> 0)"
    "(0 < total_missing_prod s) = (total_missing_prod s \<noteq> 0)"
    by auto
  from d assms(4) have "differences =
       (if total_differing s = 0 \<and> total_missing_dev s = 0 \<and> total_missing_prod s = 0
        then \<lparr>issue_icon = ''fa-check'', issue_text = ''Compared data identical'',
              issue_type = ''success''\<rparr>
        else \<lparr>issue_icon = ''fa-exclamation-triangle'',
              issue_text = ''Data differences: '' @
                join '', ''
                  (map (\<lambda>(n, label). number_to_string n @ '' '' @ label)
                     (filter (\<lambda>(n, label). n \<noteq> 0)
                        [(total_differing s, ''differing''),
                         (total_missing_dev s, ''missing from DEV''),
                         (total_missing_prod s, ''missing from PROD'')])),
              issue_type = ''danger''\<rparr>)"
    by (auto simp add: data_issue_def dataIssues_def pos)
  with all show ?thesis by simp
qed

theorem data_differences_entry_witness:
  "\<not> tables_identical all_differ \<and>
   summary all_differ =
     Some \<lparr>total_differing = 5, total_missing_dev = 0, total_missing_prod = 2\<rparr> \<and>
   (\<exists>es. issues en_US all_differ = Inr es \<and> length es = 4 \<and>
      es ! 2 = \<lparr>issue_icon = ''fa-exclamation-triangle'',
                issue_text = ''Data differences: '' @ ''5 differing, 2 missing from PROD'',
                issue_type = ''danger''\<rparr>)"
  using data_differences_entry [of all_differ 1000 998
      "\<lparr>total_differing = 5, total_missing_dev = 0, total_missing_prod = 2\<rparr>" 5000 en_US]
  by (simp add: all_differ_def host_simps)

text \<open>
  Claim C4. With the tables not identical, the second entry is the row count entry. It is
  of type danger exactly when \<open>dev_row_count\<close> and \<open>prod_row_count\<close> differ, and its text
  then holds both counts as the host formats them; otherwise it is of type success and
  its text holds the one count.
\<close>

theorem row_count_entry:
  assumes "\<not> tables_identical r"
    and "dev_row_count r = Some d" and "prod_row_count r = Some p"
    and "summary r = Some s" and "was_limited r \<longrightarrow> max_rows_setting r = Some m"
  shows "\<exists>es. issues h r = Inr es \<and> length es = 4 \<and>
     es ! 1 =
       (if d \<noteq> p
        then \<lparr>issue_icon = ''fa-exclamation-triangle'',
              issue_text = ''Row count mismatch: DEV('' @ toLocaleString h d
                @ '') vs PROD('' @ toLocaleString h p @ '')'',
              issue_type = ''danger''\<rparr>
        else \<lparr>issue_icon = ''fa-check'',
              issue_text = ''Row counts match ('' @ toLocaleString h d @ '')'',
              issue_type = ''success''\<rparr>) \<and>
     (issue_type (es ! 1) = ''danger'') = (d \<noteq> p)"
proof -
  from issues_present [OF assms(2-5), of h]
  obtain row differences coverage where
    rc: "row_count_issue h r = Inr row"
    and all: "issues h r = Inr [schema_issue r, row, differences, coverage]"
    by blast
  from rc assms(2,3) have "row =
       (if d \<noteq> p
        then \<lparr>issue_icon = ''fa-exclamation-triangle'',
              issue_text = ''Row count mismatch: DEV('' @ toLocaleString h d
                @ '') vs PROD('' @ toLocaleString h p @ '')'',
              issue_type = ''danger''\<rparr>
        else \<lparr>issue_icon = ''fa-check'',
              issue_text = ''Row counts match ('' @ toLocaleString h d @ '')'',
              issue_type = ''success''\<rparr>)"
    by (auto simp add: row_count_issue_def locale_string_def)
  with all show ?thesis by simp
qed

theorem row_count_entry_witness:
  "\<not> tables_identical all_differ \<and>
   (\<exists>es. issues en_US all_differ = Inr es \<and> length es = 4 \<and>
      es ! 1 = \<lparr>issue_icon = ''fa-exclamation-triangle'',
                issue_text = ''Row count mismatch: DEV(1,000) vs PROD(998)'',
                issue_type = ''danger''\<rparr>)"
  using row_count_entry [of all_differ 1000 998
      "\<lparr>total_differing = 5, total_missing_dev = 0, total_missing_prod = 2\<rparr>" 5000 en_US]
  by (auto simp add: all_differ_def host_simps)

text \<open>
  Claim C5. With the tables not identical and \<open>schema_differences\<close> a sequence, the first
  entry is the schema entry: of type danger, its text holding the number of differences,
  when the sequence is not empty; of type success with the text \<open>Schema identical\<close> when
  it is empty.
\<close>

theorem schema_entry:
  assumes "\<not> tables_identical r"
    and "dev_row_count r = Some d" and "prod_row_count r = Some p"
    and "summary r = Some s" and "was_limited r \<longrightarrow> max_rows_setting r = Some m"
    and "schema_differences r = Some ds"
  shows "\<exists>es. issues h r = Inr es \<and> length es = 4 \<and>
     es ! 0 =
       (if ds \<noteq> []
        then \<lparr>issue_icon = ''fa-exclamation-triangle'',
              issue_text = ''Schema differences ('' @ number_to_string (int (length ds)) @ '')'',
              issue_type = ''danger''\<rparr>
        else \<lparr>issue_icon = ''fa-check'', issue_text = ''Schema identical'',
              issue_type = ''success''\<rparr>)"
proof -
  from issues_present [OF assms(2-5), of h]
  obtain row differences coverage where
    all: "issues h r = Inr [schema_issue r, row, differences, coverage]"
    by blast
  with assms(6) show ?thesis by (simp add: schema_issue_def)
qed

theorem schema_entry_witness:
  "\<not> tables_identical all_differ \<and>
   (\<exists>es. issues en_US all_differ = Inr es \<and> length es = 4 \<and>
      es ! 0 = \<lparr>issue_icon = ''fa-exclamation-triangle'',
                issue_text = ''Schema differences (2)'', issue_type = ''danger''\<rparr>)"
  using schema_entry [of all_differ 1000 998
      "\<lparr>total_differing = 5, total_missing_dev = 0, total_missing_prod = 2\<rparr>" 5000
      "[''id: BIGINT vs INT'', ''name: only in DEV'']" en_US]
  by (simp add: all_differ_def host_simps)

text \<open>
  Claim C6. With the tables not identical, the fourth entry is the coverage entry. When
  \<open>was_limited\<close> is true it is of type warning and its text is \<open>Limited analysis:\<close>, what
  \<open>getSamplingMethodText\<close> gives for the sampling method, \<open>max_rows_setting\<close> as the
  host formats it, and \<open>rows\<close>; when \<open>was_limited\<close> is false it is of type success with
  the text \<open>Complete table analysis\<close>.
\<close>

theorem coverage_entry:
  assumes "\<not> tables_identical r"
    and "dev_row_count r = Some d" and "prod_row_count r = Some p"
    and "summary r = Some s" and "was_limited r \<longrightarrow> max_rows_setting r = Some m"
  shows "\<exists>es. issues h r = Inr es \<and> length es = 4 \<and>
     es ! 3 =
       (if was_limited r
        then \<lparr>issue_icon = ''fa-info-circle'',
              issue_text = ''Limited analysis: ''
                @ member_to_string h (getSamplingMethodText (sampling_method r))
                @ '' '' @ toLocaleString h m @ '' rows'',
              issue_type = ''warning''\<rparr>
        else \<lparr>issue_icon = ''fa-check'', issue_text = ''Complete table analysis'',
              issue_type = ''success''\<rparr>)"
proof -
  from issues_present [OF assms(2-5), of h]
  obtain row differences coverage where
    c: "coverage_issue h r = Inr coverage"
    and all: "issues h r = Inr [schema_issue r, row, differences, coverage]"
    by blast
  from c assms(5) have "coverage =
       (if was_limited r
        then \<lparr>issue_icon = ''fa-info-circle'',
              issue_text = ''Limited analysis: ''
                @ member_to_string h (getSamplingMethodText (sampling_method r))
                @ '' '' @ toLocaleString h m @ '' rows'',
              issue_type = ''warning''\<rparr>
        else \<lparr>issue_icon = ''fa-check'', issue_text = ''Complete table analysis'',
              issue_type = ''success''\<rparr>)"
    by (auto simp add: coverage_issue_def locale_string_def)
  with all show ?thesis by simp
qed

theorem coverage_entry_witness:
  "\<not> tables_identical all_differ \<and> was_limited all_differ \<and>
   (\<exists>es. issues en_US all_differ = Inr es \<and> length es = 4 \<and>
      es ! 3 = \<lparr>issue_icon = ''fa-info-circle'',
                issue_text = ''Limited analysis: random sample of 5,000 rows'',
                issue_type = ''warning''\<rparr>)"
  using coverage_entry [of all_differ 1000 998
      "\<lparr>total_differing = 5, total_missing_dev = 0, total_missing_prod = 2\<rparr>" 5000 en_US]
  by (simp add: all_differ_def getSamplingMethodText_def methods_get_def methods_def host_simps)

subsection \<open>The sampling method\<close>

text \<open>The three methods have their phrases, and a value that names nothing falls back
  to \<open>first\<close>: an absent method, \<open>null\<close>, an unknown word.\<close>

lemma getSamplingMethodText_known:
  "getSamplingMethodText (JStr ''LAST_N'') = Text ''most recent''"
  "getSamplingMethodText (JStr ''RANDOM'') = Text ''random sample of''"
  "getSamplingMethodText (JStr ''TOP_N'') = Text ''first''"
  by (simp_all add: getSamplingMethodText_def methods_get_def methods_def)

lemma getSamplingMethodText_default:
  assumes "to_property_key method \<notin> set object_prototype_keys"
    and "to_property_key method \<notin> {''LAST_N'', ''RANDOM'', ''TOP_N''}"
  shows "getSamplingMethodText method = Text ''first''"
  using assms by (simp add: getSamplingMethodText_def methods_get_def methods_def)

lemma getSamplingMethodText_absent:
  "getSamplingMethodText JUndefined = Text ''first''"
  "getSamplingMethodText JNull = Text ''first''"
  "getSamplingMethodText (JStr ''BOGUS'') = Text ''first''"
  by (simp_all add: getSamplingMethodText_def methods_get_def methods_def
      object_prototype_keys_def)

text \<open>
  Claim C7 says that \<open>getSamplingMethodText\<close> maps every value other than the three
  methods to the string \<open>first\<close>. The function does not do that for a value that names a
  member of \<open>Object.prototype\<close>: the lookup \<open>methods[method]\<close> finds the inherited
  member, which is truthy, so the default after \<open>||\<close> is not taken. For the method
  \<open>constructor\<close> the function returns the built-in function \<open>Object\<close>: not \<open>first\<close>,
  and not a string.
\<close>

theorem getSamplingMethodText_constructor:
  "getSamplingMethodText (JStr ''constructor'') = Builtin ''constructor'' \<and>
   getSamplingMethodText (JStr ''constructor'') \<noteq> Text ''first'' \<and>
   (\<forall>s. getSamplingMethodText (JStr ''constructor'') \<noteq> Text s)"
  by (simp add: getSamplingMethodText_def methods_get_def methods_def object_prototype_keys_def)

subsection \<open>What the status depends on\<close>

text \<open>
  Besides its argument the message reads only how the host formats the counts of the
  argument and prints a built-in member: two hosts that agree on these give the same
  result, whether a markup or an error. The result does depend on the host: the thousand
  rows of \<open>perfect_match\<close> read \<open>1,000\<close> on one and \<open>1.000\<close> on the other.
\<close>

lemma message_reads_host_formatting:
  assumes "\<forall>n \<in> set_option (dev_row_count r) \<union> set_option (prod_row_count r)
              \<union> set_option (max_rows_setting r).
             toLocaleString h n = toLocaleString h' n"
    and "builtin_string h = builtin_string h'"
  shows "getDetailedStatusMessage h r = getDetailedStatusMessage h' r"
proof -
  have l: "locale_string h (dev_row_count r) = locale_string h' (dev_row_count r)"
    "locale_string h (prod_row_count r) = locale_string h' (prod_row_count r)"
    "locale_string h (max_rows_setting r) = locale_string h' (max_rows_setting r)"
    using assms(1) by (auto simp add: locale_string_def split: option.splits)
  have m: "member_to_string h v = member_to_string h' v" for v
    using assms(2) by (cases v) simp_all
  have "row_count_issue h r = row_count_issue h' r"
    by (auto simp add: row_count_issue_def l split: sum.splits)
  moreover have "coverage_issue h r = coverage_issue h' r"
    by (auto simp add: coverage_issue_def l m split: sum.splits)
  ultimately have "issues h r = issues h' r"
    by (simp add: issues_def split: sum.splits)
  then show ?thesis
    by (simp add: getDetailedStatusMessage_def l)
qed

lemma message_depends_on_host:
  "getDetailedStatusMessage en_US perfect_match \<noteq> getDetailedStatusMessage pt_BR perfect_match"
  by (simp add: getDetailedStatusMessage_def locale_string_def perfect_match_def
      identical_markup_def template_def host_simps)

text \<open>
  Claim C9. The class of the header depends only on \<open>tables_identical\<close>: two comparison
  results that agree on it get the same class, however their other fields differ.
\<close>

theorem status_class_depends_on_tables_identical:
  assumes "tables_identical r1 = tables_identical r2"
  shows "getComparisonStatusClass r1 = getComparisonStatusClass r2"
  using assms by (simp add: getComparisonStatusClass_def)

theorem status_class_depends_on_tables_identical_witness:
  "tables_identical all_differ = tables_identical schema_drift \<and>
   dev_row_count all_differ \<noteq> dev_row_count schema_drift \<and>
   prod_row_count all_differ \<noteq> prod_row_count schema_drift \<and>
   summary all_differ \<noteq> summary schema_drift \<and>
   was_limited all_differ \<noteq> was_limited schema_drift \<and>
   sampling_method all_differ \<noteq> sampling_method schema_drift \<and>
   max_rows_setting all_differ \<noteq> max_rows_setting schema_drift \<and>
   getComparisonStatusClass all_differ = getComparisonStatusClass schema_drift"
  using status_class_depends_on_tables_identical [of all_differ schema_drift]
  by (simp add: all_differ_def schema_drift_def)

subsection \<open>Absent schema differences\<close>

text \<open>
  Claim C10. With the tables not identical and \<open>schema_differences\<close> absent, the call
  does not fail: it returns a message, the first entry is of type success with the text
  \<open>Schema identical\<close>, and both the entries and the message are those of the same
  comparison result with an empty sequence of schema differences.
\<close>

theorem absent_schema_differences:
  assumes "\<not> tables_identical r"
    and "dev_row_count r = Some d" and "prod_row_count r = Some p"
    and "summary r = Some s" and "was_limited r \<longrightarrow> max_rows_setting r = Some m"
    and "schema_differences r = None"
  shows "\<exists>es message.
     issues h r = Inr es \<and> length es = 4 \<and>
     es ! 0 = \<lparr>issue_icon = ''fa-check'', issue_text = ''Schema identical'',
               issue_type = ''success''\<rparr> \<and>
     issues h (r\<lparr>schema_differences := Some []\<rparr>) = Inr es \<and>
     getDetailedStatusMessage h r = Inr message \<and>
     getDetailedStatusMessage h (r\<lparr>schema_differences := Some []\<rparr>) = Inr message"
proof -
  let ?r' = "r\<lparr>schema_differences := Some []\<rparr>"
  from issues_present [OF assms(2-5), of h]
  obtain row differences coverage where
    all: "issues h r = Inr [schema_issue r, row, differences, coverage]"
    by blast
  have "row_count_issue h ?r' = row_count_issue h r"
    by (auto simp add: row_count_issue_def split: sum.splits)
  moreover have "data_issue ?r' = data_issue r"
    by (simp add: data_issue_def)
  moreover have "coverage_issue h ?r' = coverage_issue h r"
    by (auto simp add: coverage_issue_def split: sum.splits)
  moreover have "schema_issue ?r' = schema_issue r"
    using assms(6) by (simp add: schema_issue_def)
  ultimately have same: "issues h ?r' = issues h r"
    by (simp add: issues_def split: sum.splits)
  from assms(6) have first: "schema_issue r =
      \<lparr>issue_icon = ''fa-check'', issue_text = ''Schema identical'', issue_type = ''success''\<rparr>"
    by (simp add: schema_issue_def)
  from all same assms(1) first show ?thesis
    by (simp add: getDetailedStatusMessage_def)
qed

theorem absent_schema_differences_witness:
  "\<not> tables_identical (all_differ\<lparr>schema_differences := None\<rparr>) \<and>
   schema_differences (all_differ\<lparr>schema_differences := None\<rparr>) = None \<and>
   (\<exists>es message.
      issues en_US (all_differ\<lparr>schema_differences := None\<rparr>) = Inr es \<and>
      es ! 0 = \<lparr>issue_icon = ''fa-check'', issue_text = ''Schema identical'',
                issue_type = ''success''\<rparr> \<and>
      getDetailedStatusMessage en_US (all_differ\<lparr>schema_differences := None\<rparr>) = Inr message)"
  using absent_schema_differences [of "all_differ\<lparr>schema_differences := None\<rparr>" 1000 998
      "\<lparr>total_differing = 5, total_missing_dev = 0, total_missing_prod = 2\<rparr>" 5000 en_US]
  by (auto simp add: all_differ_def)

end
